theory Spec2Isabelle
  imports Complex_Main "HOL-Library.Sublist" "HOL-Library.AList"
begin

section \<open>JavaScript values used by the scripts\<close>

text \<open>
  A string-valued JSON field that may be absent (\<^verbatim>\<open>undefined\<close> or \<^verbatim>\<open>null\<close>) is a
  \<open>string option\<close>. JavaScript treats the absent value and the empty string as falsy;
  \<open>truthy\<close> is that test, \<open>js_or\<close> is \<^verbatim>\<open>a || b\<close> on such values and \<open>js_or_str\<close> is
  \<^verbatim>\<open>a || 'literal'\<close>.
\<close>

definition truthy :: "string option \<Rightarrow> bool" where
  "truthy v = (case v of None \<Rightarrow> False | Some s \<Rightarrow> s \<noteq> [])"

definition js_or :: "string option \<Rightarrow> string option \<Rightarrow> string option" where
  "js_or a b = (if truthy a then a else b)"

definition js_or_str :: "string option \<Rightarrow> string \<Rightarrow> string" where
  "js_or_str a d = (case a of None \<Rightarrow> d | Some s \<Rightarrow> if s = [] then d else s)"

text \<open>
  \<^verbatim>\<open>content.indexOf(pat)\<close>: the least index at which \<open>pat\<close> occurs; JavaScript's \<open>-1\<close>
  (no occurrence) is \<open>None\<close>.
\<close>

primrec indexOf :: "string \<Rightarrow> string \<Rightarrow> nat option" where
  "indexOf pat [] = (if pat = [] then Some 0 else None)"
| "indexOf pat (c # cs) =
     (if prefix pat (c # cs) then Some 0 else map_option Suc (indexOf pat cs))"

text \<open>
  \<^verbatim>\<open>s.split(sep)\<close> for a non-empty separator: the pieces of \<open>s\<close> between the occurrences
  of \<open>sep\<close>, scanned left to right. \<open>acc\<close> holds the current piece, reversed.
\<close>

function split_acc :: "string \<Rightarrow> string \<Rightarrow> string \<Rightarrow> string list" where
  "split_acc sep acc [] = [rev acc]"
| "split_acc sep acc (c # cs) =
     (if sep \<noteq> [] \<and> prefix sep (c # cs)
      then rev acc # split_acc sep [] (drop (length sep) (c # cs))
      else split_acc sep (c # acc) cs)"
  by pat_completeness auto
termination
  by (relation "measure (\<lambda>(sep, acc, s). length s)") (auto simp: neq_Nil_conv)

definition js_split :: "string \<Rightarrow> string \<Rightarrow> string list" where
  "js_split sep s = split_acc sep [] s"

text \<open>\<^verbatim>\<open>arr[i]\<close> on an array of strings: \<^verbatim>\<open>undefined\<close> out of range.\<close>

definition at_index :: "string list \<Rightarrow> nat \<Rightarrow> string option" where
  "at_index xs i = (if i < length xs then Some (xs ! i) else None)"

text \<open>\<^verbatim>\<open>msg.split('\n')[0]\<close>: the first line of a message.\<close>

definition first_line :: "string \<Rightarrow> string" where
  "first_line s = (case js_split [CHR 0x0A] s of [] \<Rightarrow> [] | l # _ \<Rightarrow> l)"

section \<open>The output splicer (\<^verbatim>\<open>updateReadme\<close>)\<close>

datatype error =
  EventsRequestFailed nat string string
| FetchThrown string
| MarkersNotFound string

datatype outcome = UpToDate | Updated

text \<open>
  The README file: its content and how many times \<^verbatim>\<open>fs.writeFile\<close> has been called on it.
\<close>

record readme =
  content :: string
  writes :: nat

definition PR_START_TAG :: string where
  "PR_START_TAG = ''<!-- START_RECENT_PRS -->''"

definition PR_END_TAG :: string where
  "PR_END_TAG = ''<!-- END_RECENT_PRS -->''"

definition COMMIT_START_TAG :: string where
  "COMMIT_START_TAG = ''<!-- START_RECENT_COMMITS -->''"

definition COMMIT_END_TAG :: string where
  "COMMIT_END_TAG = ''<!-- END_RECENT_COMMITS -->''"

text \<open>
  The body shared by the two copies of \<^verbatim>\<open>updateReadme\<close>, which differ in their tags and
  in the error message only. The result is the value returned or the error thrown,
  together with the file afterwards.
\<close>

definition updateReadme :: "string \<Rightarrow> string \<Rightarrow> string \<Rightarrow> string \<Rightarrow> readme \<Rightarrow> (error + outcome) \<times> readme" where
  "updateReadme START_TAG END_TAG msg markup file =
     (let startIndex = indexOf START_TAG (content file);
          endIndex = indexOf END_TAG (content file)
      in case (startIndex, endIndex) of
           (Some si, Some ei) \<Rightarrow>
             if ei \<le> si then (Inl (MarkersNotFound msg), file)
             else
               let before = take (si + length START_TAG) (content file);
                   after = drop ei (content file);
                   nextContent = before @ [CHR 0x0A] @ markup @ [CHR 0x0A] @ after
               in if nextContent = content file then (Inr UpToDate, file)
                  else (Inr Updated, file\<lparr>content := nextContent, writes := Suc (writes file)\<rparr>)
         | _ \<Rightarrow> (Inl (MarkersNotFound msg), file))"

definition updateReadme_prs :: "string \<Rightarrow> readme \<Rightarrow> (error + outcome) \<times> readme" where
  "updateReadme_prs = updateReadme PR_START_TAG PR_END_TAG ''Recent PR markers not found in README.''"

definition updateReadme_commits :: "string \<Rightarrow> readme \<Rightarrow> (error + outcome) \<times> readme" where
  "updateReadme_commits =
     updateReadme COMMIT_START_TAG COMMIT_END_TAG ''Recent commit markers not found in README.''"

section \<open>Status of a pull request (\<^verbatim>\<open>formatStatus\<close>)\<close>

record pull_request =
  pr_html_url :: "string option"
  pr_url :: "string option"
  pr_title :: "string option"
  pr_state :: "string option"
  pr_draft :: bool
  pr_merged_at :: "string option"
  pr_closed_at :: "string option"
  pr_created_at :: "string option"
  pr_head_repo_full_name :: "string option"
  pr_base_repo_full_name :: "string option"
  pr_base_repo_html_url :: "string option"

definition formatStatus :: "pull_request \<Rightarrow> string" where
  "formatStatus pr =
     (if truthy (pr_merged_at pr) then ''Merged''
      else if pr_state pr = Some ''closed'' then ''Closed''
      else if pr_draft pr then ''Draft''
      else ''Open'')"

section \<open>The event feed and the environment of a run\<close>

record push_commit =
  pc_sha :: "string option"
  pc_message :: "string option"

text \<open>
  One event of the public feed, with the fields the scripts read: \<^verbatim>\<open>event.type\<close>,
  \<^verbatim>\<open>event.created_at\<close>, \<^verbatim>\<open>event.repo?.name\<close>, \<^verbatim>\<open>event.payload?.pull_request\<close>,
  \<^verbatim>\<open>event.payload?.commits\<close> (\<open>None\<close> when it is not an array) and
  \<^verbatim>\<open>event.payload?.head\<close>.
\<close>

record event =
  ev_type :: string
  ev_created_at :: "string option"
  ev_repo_name :: "string option"
  ev_pull_request :: "pull_request option"
  ev_commits :: "push_commit list option"
  ev_head :: "string option"

text \<open>
  The answer to one request for a page of events: \<^verbatim>\<open>fetch\<close> throws, the status is not
  a success (status, status text, body), the body is not an array, or it is an array of
  events.
\<close>

datatype page_response =
  Thrown string
| NotOk nat string string
| NotArray
| Events "event list"

text \<open>
  The body of \<^verbatim>\<open>/repos/{repo}/commits/{sha}\<close>: \<^verbatim>\<open>data.commit?.message\<close>,
  \<^verbatim>\<open>data.html_url\<close>, \<^verbatim>\<open>data.commit?.author?.date\<close> and
  \<^verbatim>\<open>data.commit?.committer?.date\<close>; and the answer to one such request.
\<close>

record commit_data =
  cd_message :: "string option"
  cd_html_url :: "string option"
  cd_author_date :: "string option"
  cd_committer_date :: "string option"

datatype detail_response =
  DetailThrown string
| DetailNotOk nat
| DetailOk commit_data

text \<open>
  What a run reads from outside: the configuration taken from the process environment,
  the clock, the two \<^verbatim>\<open>Date\<close> operations of the platform (\<open>Date_parse s\<close> is
  \<^verbatim>\<open>new Date(s).getTime()\<close>, with \<open>None\<close> for \<^verbatim>\<open>NaN\<close>), and the network. A page of
  events is requested by its number. A commit lookup is answered according to how many
  lookups were sent before it, so that the same request can fail once and succeed later.
\<close>

record env =
  prLimit :: int
  commitLimit :: int
  lookbackDays :: int
  eventMaxPages :: int
  includeDrafts :: bool
  now :: int
  Date_parse :: "string option \<Rightarrow> int option"
  toISOString :: "int \<Rightarrow> string"
  fetch_events :: "int \<Rightarrow> page_response"
  fetch_commit :: "nat \<Rightarrow> string \<Rightarrow> string \<Rightarrow> detail_response"

definition sinceDate :: "env \<Rightarrow> int" where
  "sinceDate e = now e - lookbackDays e * 24 * 60 * 60 * 1000"

text \<open>
  The test \<^verbatim>\<open>Number.isNaN(eventDate.getTime()) || eventDate < sinceDate\<close> that both
  builders apply to an event.
\<close>

definition stale :: "env \<Rightarrow> event \<Rightarrow> bool" where
  "stale e ev =
     (case Date_parse e (ev_created_at ev) of None \<Rightarrow> True | Some t \<Rightarrow> t < sinceDate e)"

text \<open>
  The body of a loop either goes on with the next element (\<open>Next\<close>) or leaves the
  function by \<^verbatim>\<open>return\<close> (\<open>Return\<close>); both carry the local state. A JavaScript
  \<^verbatim>\<open>Set\<close> keeps its elements in insertion order and is a list without repetitions.
\<close>

datatype 's flow = Next 's | Return 's

fun flow_state :: "'s flow \<Rightarrow> 's" where
  "flow_state (Next s) = s"
| "flow_state (Return s) = s"

definition set_add :: "string \<Rightarrow> string list \<Rightarrow> string list" where
  "set_add k seen = (if k \<in> set seen then seen else seen @ [k])"

section \<open>The pull request builder (\<^verbatim>\<open>fetchRecentPRs\<close>)\<close>

record pr_record =
  p_repoName :: string
  p_repoUrl :: string
  p_title :: string
  p_url :: string
  p_status :: string
  p_date :: "string option"

record pr_state =
  prs :: "pr_record list"
  pr_seen :: "string list"

definition pr_repoName :: "event \<Rightarrow> pull_request \<Rightarrow> string" where
  "pr_repoName ev pr =
     js_or_str
       (js_or (js_or (js_or (pr_head_repo_full_name pr) (ev_repo_name ev))
                 (pr_base_repo_full_name pr))
          (case pr_url pr of None \<Rightarrow> None | Some u \<Rightarrow> at_index (js_split ''/repos/'' u) 1))
       ''Unknown''"

definition pr_repoUrl :: "event \<Rightarrow> pull_request \<Rightarrow> string \<Rightarrow> string" where
  "pr_repoUrl ev pr html_url =
     js_or_str (pr_base_repo_html_url pr)
       (let fallback = (case js_split ''/pull/'' html_url of [] \<Rightarrow> [] | u # _ \<Rightarrow> u)
        in case ev_repo_name ev of
             None \<Rightarrow> fallback
           | Some name \<Rightarrow> if name = [] then fallback else ''https://github.com/'' @ name)"

text \<open>The body of the loop over the events of one page.\<close>

definition pr_event :: "env \<Rightarrow> event \<Rightarrow> pr_state \<Rightarrow> pr_state flow" where
  "pr_event e ev st =
     (if ev_type ev \<noteq> ''PullRequestEvent'' then Next st
      else if stale e ev then Next st
      else case ev_pull_request ev of
        None \<Rightarrow> Next st
      | Some pr \<Rightarrow>
          (case pr_html_url pr of
             None \<Rightarrow> Next st
           | Some key \<Rightarrow>
               if key = [] then Next st
               else if \<not> includeDrafts e \<and> pr_draft pr then Next st
               else if key \<in> set (pr_seen st) then Next st
               else
                 let st' = st\<lparr>pr_seen := set_add key (pr_seen st),
                              prs := prs st @
                                [\<lparr>p_repoName = pr_repoName ev pr,
                                  p_repoUrl = pr_repoUrl ev pr key,
                                  p_title = js_or_str (pr_title pr) ''Pull request'',
                                  p_url = key,
                                  p_status = formatStatus pr,
                                  p_date = js_or (js_or (js_or (pr_merged_at pr) (pr_closed_at pr))
                                                    (pr_created_at pr)) (ev_created_at ev)\<rparr>]\<rparr>
                 in if int (length (prs st')) \<ge> prLimit e then Return st' else Next st'))"

fun pr_events :: "env \<Rightarrow> event list \<Rightarrow> pr_state \<Rightarrow> pr_state flow" where
  "pr_events e [] st = Next st"
| "pr_events e (ev # evs) st =
     (case pr_event e ev st of Return st' \<Rightarrow> Return st' | Next st' \<Rightarrow> pr_events e evs st')"

text \<open>
  The loop over the pages, from \<open>page\<close> on. A failed request throws; a page that is not
  an array or is empty ends the loop.
\<close>

function pr_pages :: "env \<Rightarrow> int \<Rightarrow> pr_state \<Rightarrow> error + pr_state" where
  "pr_pages e page st =
     (if page \<le> eventMaxPages e then
        (case fetch_events e page of
           Thrown m \<Rightarrow> Inl (FetchThrown m)
         | NotOk status statusText body \<Rightarrow> Inl (EventsRequestFailed status statusText body)
         | NotArray \<Rightarrow> Inr st
         | Events evs \<Rightarrow>
             if evs = [] then Inr st
             else (case pr_events e evs st of
                     Return st' \<Rightarrow> Inr st'
                   | Next st' \<Rightarrow> pr_pages e (page + 1) st'))
      else Inr st)"
  by pat_completeness auto
termination
  by (relation "measure (\<lambda>(e, page, st). nat (eventMaxPages e + 1 - page))") auto

definition pr_run :: "env \<Rightarrow> error + pr_state" where
  "pr_run e = pr_pages e 1 \<lparr>prs = [], pr_seen = []\<rparr>"

definition fetchRecentPRs :: "env \<Rightarrow> error + pr_record list" where
  "fetchRecentPRs e = map_sum id prs (pr_run e)"

section \<open>The commit builder (\<^verbatim>\<open>fetchCommitDetails\<close>, \<^verbatim>\<open>fetchRecentCommits\<close>)\<close>

record commit_info =
  ci_message :: string
  ci_url :: "string option"
  ci_date :: "string option"

record commit_record =
  c_repoName :: string
  c_repoUrl :: string
  c_message :: string
  c_url :: string
  c_oid :: string
  c_occurredAt :: string

text \<open>
  The state of a run of the commit script: the local \<^verbatim>\<open>commits\<close> and \<^verbatim>\<open>seen\<close>, the
  module-level \<^verbatim>\<open>commitCache\<close> (a \<^verbatim>\<open>Map\<close>, here an association list), and the number
  of commit lookups sent to the network so far.
\<close>

record commit_state =
  commits :: "commit_record list"
  seen :: "string list"
  commitCache :: "(string \<times> commit_info) list"
  lookups :: nat

definition cacheKey :: "string \<Rightarrow> string \<Rightarrow> string" where
  "cacheKey repoName sha = repoName @ ''@'' @ sha"

definition fetchCommitDetails ::
  "env \<Rightarrow> string \<Rightarrow> string \<Rightarrow> commit_state \<Rightarrow> commit_info option \<times> commit_state" where
  "fetchCommitDetails e repoName sha st =
     (case map_of (commitCache st) (cacheKey repoName sha) of
        Some info \<Rightarrow> (Some info, st)
      | None \<Rightarrow>
          (case fetch_commit e (lookups st) repoName sha of
             DetailThrown m \<Rightarrow> (None, st\<lparr>lookups := Suc (lookups st)\<rparr>)
           | DetailNotOk status \<Rightarrow> (None, st\<lparr>lookups := Suc (lookups st)\<rparr>)
           | DetailOk data \<Rightarrow>
               let info = \<lparr>ci_message = js_or_str (map_option first_line (cd_message data)) ''Update'',
                           ci_url = cd_html_url data,
                           ci_date = js_or (js_or (cd_author_date data) (cd_committer_date data)) None\<rparr>
               in (Some info,
                   st\<lparr>commitCache := AList.update (cacheKey repoName sha) info (commitCache st),
                      lookups := Suc (lookups st)\<rparr>)))"

text \<open>
  The body of the loop over the inline commits of a push event; \<open>t\<close> is the time of the
  event.
\<close>

definition inline_commit ::
  "env \<Rightarrow> string \<Rightarrow> int \<Rightarrow> push_commit \<Rightarrow> commit_state \<Rightarrow> commit_state flow" where
  "inline_commit e repoName t commit st =
     (case pc_sha commit of
        None \<Rightarrow> Next st
      | Some sha \<Rightarrow>
          if sha = [] \<or> sha \<in> set (seen st) then Next st
          else
            let st' = st\<lparr>seen := set_add sha (seen st),
                         commits := commits st @
                           [\<lparr>c_repoName = repoName,
                             c_repoUrl = ''https://github.com/'' @ repoName,
                             c_message = first_line (js_or_str (pc_message commit) ''Update''),
                             c_url = ''https://github.com/'' @ repoName @ ''/commit/'' @ sha,
                             c_oid = take 7 sha,
                             c_occurredAt = toISOString e t\<rparr>]\<rparr>
            in if int (length (commits st')) \<ge> commitLimit e then Return st' else Next st')"

fun inline_commits ::
  "env \<Rightarrow> string \<Rightarrow> int \<Rightarrow> push_commit list \<Rightarrow> commit_state \<Rightarrow> commit_state flow" where
  "inline_commits e repoName t [] st = Next st"
| "inline_commits e repoName t (c # cs) st =
     (case inline_commit e repoName t c st of
        Return st' \<Rightarrow> Return st'
      | Next st' \<Rightarrow> inline_commits e repoName t cs st')"

text \<open>The head-reference path of a push event without inline commits.\<close>

definition head_commit ::
  "env \<Rightarrow> string \<Rightarrow> int \<Rightarrow> string option \<Rightarrow> commit_state \<Rightarrow> commit_state flow" where
  "head_commit e repoName t head st =
     (case head of
        None \<Rightarrow> Next st
      | Some headSha \<Rightarrow>
          if headSha = [] \<or> headSha \<in> set (seen st) then Next st
          else
            (case fetchCommitDetails e repoName headSha st of
               (None, st1) \<Rightarrow> Next st1
             | (Some details, st1) \<Rightarrow>
                 let st' = st1\<lparr>seen := set_add headSha (seen st1),
                               commits := commits st1 @
                                 [\<lparr>c_repoName = repoName,
                                   c_repoUrl = ''https://github.com/'' @ repoName,
                                   c_message = ci_message details,
                                   c_url = js_or_str (ci_url details)
                                     (''https://github.com/'' @ repoName @ ''/commit/'' @ headSha),
                                   c_oid = take 7 headSha,
                                   c_occurredAt = js_or_str (ci_date details) (toISOString e t)\<rparr>]\<rparr>
                 in if int (length (commits st')) \<ge> commitLimit e then Return st' else Next st'))"

text \<open>The body of the loop over the events of one page.\<close>

definition commit_event :: "env \<Rightarrow> event \<Rightarrow> commit_state \<Rightarrow> commit_state flow" where
  "commit_event e ev st =
     (if ev_type ev \<noteq> ''PushEvent'' then Next st
      else case Date_parse e (ev_created_at ev) of
        None \<Rightarrow> Next st
      | Some t \<Rightarrow>
          if t < sinceDate e then Next st
          else (case ev_repo_name ev of
                  None \<Rightarrow> Next st
                | Some repoName \<Rightarrow>
                    if repoName = [] then Next st
                    else (case ev_commits ev of
                            Some (c # cs) \<Rightarrow> inline_commits e repoName t (c # cs) st
                          | _ \<Rightarrow> head_commit e repoName t (ev_head ev) st)))"

fun commit_events :: "env \<Rightarrow> event list \<Rightarrow> commit_state \<Rightarrow> commit_state flow" where
  "commit_events e [] st = Next st"
| "commit_events e (ev # evs) st =
     (case commit_event e ev st of
        Return st' \<Rightarrow> Return st'
      | Next st' \<Rightarrow> commit_events e evs st')"

function commit_pages :: "env \<Rightarrow> int \<Rightarrow> commit_state \<Rightarrow> error + commit_state" where
  "commit_pages e page st =
     (if page \<le> eventMaxPages e then
        (case fetch_events e page of
           Thrown m \<Rightarrow> Inl (FetchThrown m)
         | NotOk status statusText body \<Rightarrow> Inl (EventsRequestFailed status statusText body)
         | NotArray \<Rightarrow> Inr st
         | Events evs \<Rightarrow>
             if evs = [] then Inr st
             else (case commit_events e evs st of
                     Return st' \<Rightarrow> Inr st'
                   | Next st' \<Rightarrow> commit_pages e (page + 1) st'))
      else Inr st)"
  by pat_completeness auto
termination
  by (relation "measure (\<lambda>(e, page, st). nat (eventMaxPages e + 1 - page))") auto

definition commit_run :: "env \<Rightarrow> error + commit_state" where
  "commit_run e = commit_pages e 1 \<lparr>commits = [], seen = [], commitCache = [], lookups = 0\<rparr>"

definition fetchRecentCommits :: "env \<Rightarrow> error + commit_record list" where
  "fetchRecentCommits e = map_sum id commits (commit_run e)"

text \<open>
  A push event inside the window that takes the head-reference path: it names the
  repository, has no inline commits (\<^verbatim>\<open>payload.commits\<close> is absent or empty) and
  carries the head reference \<open>headSha\<close>.
\<close>

definition head_only_push :: "env \<Rightarrow> event \<Rightarrow> string \<Rightarrow> string \<Rightarrow> bool" where
  "head_only_push e ev repoName headSha =
     (ev_type ev = ''PushEvent'' \<and> \<not> stale e ev
      \<and> ev_repo_name ev = Some repoName \<and> repoName \<noteq> []
      \<and> (ev_commits ev = None \<or> ev_commits ev = Some [])
      \<and> ev_head ev = Some headSha \<and> headSha \<noteq> [])"

section \<open>The language badge (\<^verbatim>\<open>fetchLanguages\<close>, \<^verbatim>\<open>buildSvg\<close>)\<close>





















section \<open>The markup renderers (\<^verbatim>\<open>formatDate\<close>, \<^verbatim>\<open>buildPrMarkup\<close>, \<^verbatim>\<open>buildCommitMarkup\<close>)\<close>

definition NL :: string where
  "NL = [CHR 0x0A]"

definition Q :: string where
  "Q = [CHR 0x22]"

definition SQ :: string where
  "SQ = [CHR 0x27]"

fun join :: "string \<Rightarrow> string list \<Rightarrow> string" where
  "join sep [] = []"
| "join sep [x] = x"
| "join sep (x # y # ys) = x @ sep @ join sep (y # ys)"

definition formatDate :: "env \<Rightarrow> string option \<Rightarrow> string" where
  "formatDate e dateString =
     (if \<not> truthy dateString then []
      else case Date_parse e dateString of
             None \<Rightarrow> []
           | Some t \<Rightarrow> take 10 (toISOString e t))"

definition link :: "string \<Rightarrow> string \<Rightarrow> string" where
  "link href body =
     ''<a href='' @ Q @ href @ Q @ '' target='' @ Q @ ''_blank'' @ Q @ '' rel='' @ Q
       @ ''noopener noreferrer'' @ Q @ ''>'' @ body @ ''</a>''"

definition table_open :: string where
  "table_open =
     ''<div align='' @ Q @ ''center'' @ Q @ ''>'' @ NL
     @ ''  <table style='' @ Q
     @ ''width:90%;max-width:720px;border-collapse:collapse;font-family:'' @ SQ @ ''Segoe UI'' @ SQ
     @ '', Ubuntu, sans-serif;font-size:14px;color:#c9d1d9;'' @ Q @ ''>'' @ NL
     @ ''    <thead>'' @ NL
     @ ''      <tr style='' @ Q @ ''text-align:left;color:#8b949e;font-size:13px;'' @ Q @ ''>'' @ NL"

definition th :: "string \<Rightarrow> string" where
  "th label = ''        <th style='' @ Q @ ''padding:6px 8px;'' @ Q @ ''>'' @ label @ ''</th>'' @ NL"

definition table_body :: "string \<Rightarrow> string" where
  "table_body rows =
     ''      </tr>'' @ NL @ ''    </thead>'' @ NL @ ''    <tbody>'' @ NL @ rows @ NL
     @ ''    </tbody>'' @ NL @ ''  </table>'' @ NL @ ''</div>''"



definition commit_row :: "env \<Rightarrow> commit_record \<Rightarrow> string" where
  "commit_row e commit =
     (let date = formatDate e (Some (c_occurredAt commit))
      in ''  <tr>'' @ NL
         @ ''    <td><code>'' @ date @ ''</code></td>'' @ NL
         @ ''    <td>'' @ link (c_url commit) (c_message commit) @ ''</td>'' @ NL
         @ ''    <td>'' @ link (c_repoUrl commit) (c_repoName commit) @ ''</td>'' @ NL
         @ ''  </tr>'')"

definition buildCommitMarkup :: "env \<Rightarrow> commit_record list \<Rightarrow> string" where
  "buildCommitMarkup e commitList =
     (if commitList = [] then
        ''<div align='' @ Q @ ''center'' @ Q @ ''>'' @ NL
        @ ''  <!-- No recent commits available -->'' @ NL @ ''</div>''
      else
        let rows = join NL (map (commit_row e) commitList)
        in table_open @ th ''Date'' @ th ''Commit'' @ th ''Repository'' @ table_body rows)"


definition main_commits :: "env \<Rightarrow> readme \<Rightarrow> (error + outcome) \<times> readme" where
  "main_commits e file =
     (case fetchRecentCommits e of
        Inl err \<Rightarrow> (Inl err, file)
      | Inr commitList \<Rightarrow> updateReadme_commits (buildCommitMarkup e commitList) file)"

section \<open>Example inputs\<close>

text \<open>
  Concrete feeds, documents and language maps on which the theorems below are
  instantiated. Times are in milliseconds: \<open>now\<close> is day 100, the event dated \<open>new\<close> is
  one day old and the event dated \<open>old\<close> ninety days old.
\<close>

definition example_pr :: "string \<Rightarrow> string option \<Rightarrow> string option \<Rightarrow> bool \<Rightarrow> string \<Rightarrow> pull_request" where
  "example_pr html merged state draft title =
     \<lparr>pr_html_url = Some html,
      pr_url = Some ''https://api.github.com/repos/octo/demo/pulls/1'',
      pr_title = Some title,
      pr_state = state,
      pr_draft = draft,
      pr_merged_at = merged,
      pr_closed_at = merged,
      pr_created_at = Some ''new'',
      pr_head_repo_full_name = Some ''octo/demo'',
      pr_base_repo_full_name = None,
      pr_base_repo_html_url = None\<rparr>"

definition pr_ev :: "string \<Rightarrow> pull_request \<Rightarrow> event" where
  "pr_ev created pr =
     \<lparr>ev_type = ''PullRequestEvent'', ev_created_at = Some created, ev_repo_name = None,
      ev_pull_request = Some pr, ev_commits = None, ev_head = None\<rparr>"

definition push_ev :: "string \<Rightarrow> push_commit list option \<Rightarrow> string option \<Rightarrow> event" where
  "push_ev created cs head =
     \<lparr>ev_type = ''PushEvent'', ev_created_at = Some created, ev_repo_name = Some ''octo/demo'',
      ev_pull_request = None, ev_commits = cs, ev_head = head\<rparr>"

definition example_env ::
  "int \<Rightarrow> event list \<Rightarrow> (nat \<Rightarrow> string \<Rightarrow> string \<Rightarrow> detail_response) \<Rightarrow> env" where
  "example_env limit page1 net =
     \<lparr>prLimit = limit, commitLimit = limit, lookbackDays = 60, eventMaxPages = 3,
      includeDrafts = False, now = 8640000000,
      Date_parse = (\<lambda>s. if s = Some ''new'' then Some 8553600000
                         else if s = Some ''old'' then Some 864000000 else None),
      toISOString = (\<lambda>t. ''1970-04-10T00:00:00.000Z''),
      fetch_events = (\<lambda>page. if page = 1 then Events page1 else Events []),
      fetch_commit = net\<rparr>"


text \<open>A network whose first commit lookup fails and whose later ones succeed.\<close>

definition flaky_net :: "nat \<Rightarrow> string \<Rightarrow> string \<Rightarrow> detail_response" where
  "flaky_net n repoName sha =
     (if n = 0 then DetailNotOk 500
      else DetailOk \<lparr>cd_message = Some ''three'', cd_html_url = None, cd_author_date = None,
                     cd_committer_date = None\<rparr>)"

definition two_prs :: "event list" where
  "two_prs =
     [pr_ev ''new'' (example_pr ''https://github.com/octo/demo/pull/1'' (Some ''new'')
        (Some ''closed'') False ''Fix''),
      pr_ev ''new'' (example_pr ''https://github.com/octo/demo/pull/2'' None
        (Some ''open'') False ''Add'')]"



definition inline_push :: event where
  "inline_push = push_ev ''new''
     (Some [\<lparr>pc_sha = Some ''0123456789abcdef'', pc_message = Some ''one''\<rparr>,
            \<lparr>pc_sha = Some ''1123456789abcdef'', pc_message = Some ''two''\<rparr>]) None"

definition head_push :: event where
  "head_push = push_ev ''new'' None (Some ''aaaaaaaaaaaaaaaa'')"

definition head_push_again :: event where
  "head_push_again = push_ev ''new'' (Some []) (Some ''aaaaaaaaaaaaaaaa'')"

definition empty_state :: commit_state where
  "empty_state = \<lparr>commits = [], seen = [], commitCache = [], lookups = 0\<rparr>"





definition doc_no_end :: readme where
  "doc_no_end = \<lparr>content = ''# Hi'' @ NL @ PR_START_TAG @ NL @ COMMIT_START_TAG, writes = 0\<rparr>"

definition doc_reversed :: readme where
  "doc_reversed =
     \<lparr>content = PR_END_TAG @ PR_START_TAG @ COMMIT_END_TAG @ COMMIT_START_TAG, writes = 0\<rparr>"


section \<open>Facts about \<open>indexOf\<close> and the splice\<close>


















section \<open>Facts about the badge percentages\<close>






section \<open>Invariants of the pull request builder\<close>


lemma pr_event_keys:
  assumes "map p_url (prs st) = pr_seen st" "distinct (pr_seen st)"
  shows "map p_url (prs (flow_state (pr_event e ev st))) = pr_seen (flow_state (pr_event e ev st))
         \<and> distinct (pr_seen (flow_state (pr_event e ev st)))"
  using assms by (auto simp: pr_event_def Let_def set_add_def split: option.splits)

lemma pr_events_keys:
  "map p_url (prs st) = pr_seen st \<Longrightarrow> distinct (pr_seen st) \<Longrightarrow>
   map p_url (prs (flow_state (pr_events e evs st))) = pr_seen (flow_state (pr_events e evs st))
   \<and> distinct (pr_seen (flow_state (pr_events e evs st)))"
proof (induction evs arbitrary: st)
  case Nil
  then show ?case by simp
next
  case (Cons ev evs)
  note k = pr_event_keys[OF Cons.prems, of e ev]
  show ?case
  proof (cases "pr_event e ev st")
    case (Next st')
    then show ?thesis using k Cons.IH[of st'] by simp
  next
    case (Return st')
    then show ?thesis using k by simp
  qed
qed

lemma pr_pages_keys:
  "map p_url (prs st) = pr_seen st \<Longrightarrow> distinct (pr_seen st) \<Longrightarrow> pr_pages e page st = Inr st' \<Longrightarrow>
   map p_url (prs st') = pr_seen st' \<and> distinct (pr_seen st')"
proof (induction e page st rule: pr_pages.induct)
  case (1 e page st)
  show ?case
  proof (cases "page \<le> eventMaxPages e")
    case False
    then show ?thesis using "1.prems" by simp
  next
    case True
    show ?thesis
    proof (cases "fetch_events e page")
      case (Events evs)
      show ?thesis
      proof (cases "evs = []")
        case True
        then show ?thesis using "1.prems" Events \<open>page \<le> eventMaxPages e\<close> by simp
      next
        case False
        note k = pr_events_keys[OF "1.prems"(1,2), of e evs]
        show ?thesis
        proof (cases "pr_events e evs st")
          case (Next s)
          then show ?thesis
            using "1.IH"[OF True Events False Next] k "1.prems"(3) Events True False by simp
        next
          case (Return s)
          then show ?thesis using k "1.prems"(3) Events True False by simp
        qed
      qed
    qed (use "1.prems" True in simp_all)
  qed
qed





lemma pr_run_keys: "pr_run e = Inr st \<Longrightarrow> map p_url (prs st) = pr_seen st \<and> distinct (pr_seen st)"
  unfolding pr_run_def by (rule pr_pages_keys[of "\<lparr>prs = [], pr_seen = []\<rparr>"]) simp_all



section \<open>Invariants of the commit builder\<close>

lemma fetchCommitDetails_frame:
  "fetchCommitDetails e repoName sha st = (d, st1) \<Longrightarrow> commits st1 = commits st \<and> seen st1 = seen st"
  by (auto simp: fetchCommitDetails_def Let_def split: option.splits detail_response.splits)

lemma inline_commit_keys:
  assumes "map c_oid (commits st) = map (take 7) (seen st)" "distinct (seen st)"
  shows "map c_oid (commits (flow_state (inline_commit e repoName t c st)))
           = map (take 7) (seen (flow_state (inline_commit e repoName t c st)))
         \<and> distinct (seen (flow_state (inline_commit e repoName t c st)))"
  using assms by (auto simp: inline_commit_def Let_def set_add_def split: option.splits)

lemma inline_commits_keys:
  "map c_oid (commits st) = map (take 7) (seen st) \<Longrightarrow> distinct (seen st) \<Longrightarrow>
   map c_oid (commits (flow_state (inline_commits e repoName t cs st)))
           = map (take 7) (seen (flow_state (inline_commits e repoName t cs st)))
         \<and> distinct (seen (flow_state (inline_commits e repoName t cs st)))"
proof (induction cs arbitrary: st)
  case Nil
  then show ?case by simp
next
  case (Cons c cs)
  note k = inline_commit_keys[OF Cons.prems, of e repoName t c]
  show ?case
  proof (cases "inline_commit e repoName t c st")
    case (Next st')
    then show ?thesis using k Cons.IH[of st'] by simp
  next
    case (Return st')
    then show ?thesis using k by simp
  qed
qed

lemma head_commit_keys:
  assumes "map c_oid (commits st) = map (take 7) (seen st)" "distinct (seen st)"
  shows "map c_oid (commits (flow_state (head_commit e repoName t h st)))
           = map (take 7) (seen (flow_state (head_commit e repoName t h st)))
         \<and> distinct (seen (flow_state (head_commit e repoName t h st)))"
proof (cases h)
  case None
  then show ?thesis using assms by (simp add: head_commit_def)
next
  case (Some headSha)
  obtain d st1 where f: "fetchCommitDetails e repoName headSha st = (d, st1)"
    by (cases "fetchCommitDetails e repoName headSha st")
  note fr = fetchCommitDetails_frame[OF f]
  show ?thesis using Some f fr assms
    by (auto simp: head_commit_def Let_def set_add_def split: option.splits)
qed

lemma commit_event_keys:
  assumes "map c_oid (commits st) = map (take 7) (seen st)" "distinct (seen st)"
  shows "map c_oid (commits (flow_state (commit_event e ev st)))
           = map (take 7) (seen (flow_state (commit_event e ev st)))
         \<and> distinct (seen (flow_state (commit_event e ev st)))"
  using assms inline_commits_keys[OF assms] head_commit_keys[OF assms]
  by (simp add: commit_event_def del: inline_commits.simps split: option.splits list.splits)

lemma commit_events_keys:
  "map c_oid (commits st) = map (take 7) (seen st) \<Longrightarrow> distinct (seen st) \<Longrightarrow>
   map c_oid (commits (flow_state (commit_events e evs st)))
           = map (take 7) (seen (flow_state (commit_events e evs st)))
         \<and> distinct (seen (flow_state (commit_events e evs st)))"
proof (induction evs arbitrary: st)
  case Nil
  then show ?case by simp
next
  case (Cons ev evs)
  note k = commit_event_keys[OF Cons.prems, of e ev]
  show ?case
  proof (cases "commit_event e ev st")
    case (Next st')
    then show ?thesis using k Cons.IH[of st'] by simp
  next
    case (Return st')
    then show ?thesis using k by simp
  qed
qed

lemma commit_pages_keys:
  "map c_oid (commits st) = map (take 7) (seen st) \<Longrightarrow> distinct (seen st) \<Longrightarrow>
   commit_pages e page st = Inr st' \<Longrightarrow>
   map c_oid (commits st') = map (take 7) (seen st') \<and> distinct (seen st')"
proof (induction e page st rule: commit_pages.induct)
  case (1 e page st)
  show ?case
  proof (cases "page \<le> eventMaxPages e")
    case False
    then show ?thesis using "1.prems" by simp
  next
    case True
    show ?thesis
    proof (cases "fetch_events e page")
      case (Events evs)
      show ?thesis
      proof (cases "evs = []")
        case True
        then show ?thesis using "1.prems" Events \<open>page \<le> eventMaxPages e\<close> by simp
      next
        case False
        note k = commit_events_keys[OF "1.prems"(1,2), of e evs]
        show ?thesis
        proof (cases "commit_events e evs st")
          case (Next s)
          then show ?thesis
            using "1.IH"[OF True Events False Next] k "1.prems"(3) Events True False by simp
        next
          case (Return s)
          then show ?thesis using k "1.prems"(3) Events True False by simp
        qed
      qed
    qed (use "1.prems" True in simp_all)
  qed
qed

lemma commit_run_keys:
  "commit_run e = Inr st \<Longrightarrow> map c_oid (commits st) = map (take 7) (seen st) \<and> distinct (seen st)"
  unfolding commit_run_def
  by (rule commit_pages_keys[of "\<lparr>commits = [], seen = [], commitCache = [], lookups = 0\<rparr>"]) simp_all











section \<open>The claims\<close>

subsection \<open>C1: the percentage labels of the badge\<close>




subsection \<open>C2: the status of a pull request\<close>

text \<open>
  C2. \<open>formatStatus\<close> is total and prioritised: a pull request with \<^verbatim>\<open>merged_at\<close> set
  (a non-empty timestamp) is ''Merged'' whatever its other fields; otherwise one whose
  state is ''closed'' is ''Closed''; otherwise a draft is ''Draft''; otherwise it is
  ''Open''. The status is always one of the four.
\<close>

theorem formatStatus_priority:
  "(truthy (pr_merged_at pr) \<longrightarrow> formatStatus pr = ''Merged'')
   \<and> (\<not> truthy (pr_merged_at pr) \<and> pr_state pr = Some ''closed''
        \<longrightarrow> formatStatus pr = ''Closed'')
   \<and> (\<not> truthy (pr_merged_at pr) \<and> pr_state pr \<noteq> Some ''closed'' \<and> pr_draft pr
        \<longrightarrow> formatStatus pr = ''Draft'')
   \<and> (\<not> truthy (pr_merged_at pr) \<and> pr_state pr \<noteq> Some ''closed'' \<and> \<not> pr_draft pr
        \<longrightarrow> formatStatus pr = ''Open'')
   \<and> formatStatus pr \<in> {''Merged'', ''Closed'', ''Draft'', ''Open''}"
  by (simp add: formatStatus_def)

text \<open>
  One pull request for each of the four cases; the merged one is also closed and a draft.
\<close>

theorem formatStatus_priority_witness:
  "truthy (pr_merged_at (example_pr ''u'' (Some ''new'') (Some ''closed'') True ''t''))
   \<and> formatStatus (example_pr ''u'' (Some ''new'') (Some ''closed'') True ''t'') = ''Merged''
   \<and> \<not> truthy (pr_merged_at (example_pr ''u'' None (Some ''closed'') True ''t''))
   \<and> formatStatus (example_pr ''u'' None (Some ''closed'') True ''t'') = ''Closed''
   \<and> formatStatus (example_pr ''u'' None (Some ''open'') True ''t'') = ''Draft''
   \<and> formatStatus (example_pr ''u'' None (Some ''open'') False ''t'') = ''Open''"
  using formatStatus_priority[of "example_pr ''u'' (Some ''new'') (Some ''closed'') True ''t''"]
    formatStatus_priority[of "example_pr ''u'' None (Some ''closed'') True ''t''"]
    formatStatus_priority[of "example_pr ''u'' None (Some ''open'') True ''t''"]
    formatStatus_priority[of "example_pr ''u'' None (Some ''open'') False ''t''"]
  by (simp add: example_pr_def truthy_def)

subsection \<open>C3: deduplication keys\<close>

text \<open>
  C3. In one run no two display records share a deduplication key. The pull request
  records carry their key, the canonical URL, and the URLs of the records returned are
  pairwise distinct. For the commit builder \<open>seen\<close> lists the SHAs in the order in which
  they were added, both by the inline path and by the head-reference path: at the end of a
  run these SHAs are pairwise distinct and the records are, one to one and in order, those
  built from them (the \<open>i\<close>-th record has the first seven characters of the \<open>i\<close>-th SHA as
  its \<open>oid\<close>).
\<close>

theorem dedup_keys:
  "(fetchRecentPRs e = Inr prList \<longrightarrow> distinct (map p_url prList))
   \<and> (commit_run e = Inr st \<longrightarrow>
        fetchRecentCommits e = Inr (commits st)
        \<and> distinct (seen st)
        \<and> map c_oid (commits st) = map (take 7) (seen st))"
proof -
  have "distinct (map p_url prList)" if "fetchRecentPRs e = Inr prList"
  proof -
    from that obtain s where s: "pr_run e = Inr s" "prList = prs s"
      by (cases "pr_run e") (auto simp: fetchRecentPRs_def)
    show ?thesis using pr_run_keys[OF s(1)] s(2) by simp
  qed
  moreover have "fetchRecentCommits e = Inr (commits st)" if "commit_run e = Inr st"
    using that by (simp add: fetchRecentCommits_def)
  ultimately show ?thesis using commit_run_keys[of e st] by blast
qed

text \<open>
  A feed with the same two pull requests twice yields two records; in the same feed a
  push with two inline commits is repeated and a head reference occurs twice (its first
  lookup fails), and the run yields three records for three SHAs.
\<close>

theorem dedup_keys_witness:
  "fetchRecentPRs (example_env 5
       (two_prs @ two_prs @ [inline_push, head_push, inline_push, head_push_again]) flaky_net)
     = Inr (prs (flow_state (pr_events (example_env 5 [] flaky_net) two_prs
              \<lparr>prs = [], pr_seen = []\<rparr>)))
   \<and> map p_url (prs (flow_state (pr_events (example_env 5 [] flaky_net) two_prs
              \<lparr>prs = [], pr_seen = []\<rparr>)))
     = [''https://github.com/octo/demo/pull/1'', ''https://github.com/octo/demo/pull/2'']
   \<and> commit_run (example_env 5
       (two_prs @ two_prs @ [inline_push, head_push, inline_push, head_push_again]) flaky_net)
     = Inr (flow_state (commit_events (example_env 5 [] flaky_net)
              [inline_push, head_push, head_push_again] empty_state))
   \<and> seen (flow_state (commit_events (example_env 5 [] flaky_net)
              [inline_push, head_push, head_push_again] empty_state))
     = [''0123456789abcdef'', ''1123456789abcdef'', ''aaaaaaaaaaaaaaaa'']
   \<and> map c_oid (commits (flow_state (commit_events (example_env 5 [] flaky_net)
              [inline_push, head_push, head_push_again] empty_state)))
     = [''0123456'', ''1123456'', ''aaaaaaa'']"
proof -
  have a: "fetchRecentPRs (example_env 5
       (two_prs @ two_prs @ [inline_push, head_push, inline_push, head_push_again]) flaky_net)
     = Inr (prs (flow_state (pr_events (example_env 5 [] flaky_net) two_prs
              \<lparr>prs = [], pr_seen = []\<rparr>)))"
    by code_simp
  have a': "map p_url (prs (flow_state (pr_events (example_env 5 [] flaky_net) two_prs
              \<lparr>prs = [], pr_seen = []\<rparr>)))
     = [''https://github.com/octo/demo/pull/1'', ''https://github.com/octo/demo/pull/2'']"
    by code_simp
  have b: "commit_run (example_env 5
       (two_prs @ two_prs @ [inline_push, head_push, inline_push, head_push_again]) flaky_net)
     = Inr (flow_state (commit_events (example_env 5 [] flaky_net)
              [inline_push, head_push, head_push_again] empty_state))"
    by code_simp
  have c: "seen (flow_state (commit_events (example_env 5 [] flaky_net)
              [inline_push, head_push, head_push_again] empty_state))
     = [''0123456789abcdef'', ''1123456789abcdef'', ''aaaaaaaaaaaaaaaa'']"
    by code_simp
  from dedup_keys[of "example_env 5
       (two_prs @ two_prs @ [inline_push, head_push, inline_push, head_push_again]) flaky_net"
      "prs (flow_state (pr_events (example_env 5 [] flaky_net) two_prs \<lparr>prs = [], pr_seen = []\<rparr>))"
      "flow_state (commit_events (example_env 5 [] flaky_net)
              [inline_push, head_push, head_push_again] empty_state)"] a a' b c
  show ?thesis by simp
qed

subsection \<open>C4: the record limit\<close>




subsection \<open>C5: the splice is idempotent\<close>




subsection \<open>C6: missing or misordered markers\<close>

text \<open>
  C6. If the start marker or the end marker does not occur in the document, or the end
  marker is found at or before the start marker, \<open>updateReadme\<close> fails with its
  ``markers not found'' error (each script with its own message) and the file is as it
  was: its content is unchanged and nothing was written.
\<close>

theorem markers_not_found:
  "(indexOf PR_START_TAG (content file) = None \<or> indexOf PR_END_TAG (content file) = None
      \<or> (\<exists>si ei. indexOf PR_START_TAG (content file) = Some si
             \<and> indexOf PR_END_TAG (content file) = Some ei \<and> ei \<le> si)
     \<longrightarrow> updateReadme_prs markup file
           = (Inl (MarkersNotFound ''Recent PR markers not found in README.''), file))
   \<and> (indexOf COMMIT_START_TAG (content file) = None
      \<or> indexOf COMMIT_END_TAG (content file) = None
      \<or> (\<exists>si ei. indexOf COMMIT_START_TAG (content file) = Some si
             \<and> indexOf COMMIT_END_TAG (content file) = Some ei \<and> ei \<le> si)
     \<longrightarrow> updateReadme_commits markup file
           = (Inl (MarkersNotFound ''Recent commit markers not found in README.''), file))"
  by (auto simp: updateReadme_prs_def updateReadme_commits_def updateReadme_def Let_def
      split: option.splits)

text \<open>
  A document without end markers (and without the start marker of the commit region after
  its first line), and a document whose end markers come first.
\<close>

theorem markers_not_found_witness:
  "indexOf PR_END_TAG (content doc_no_end) = None
   \<and> updateReadme_prs ''new'' doc_no_end
       = (Inl (MarkersNotFound ''Recent PR markers not found in README.''), doc_no_end)
   \<and> indexOf COMMIT_END_TAG (content doc_no_end) = None
   \<and> updateReadme_commits ''new'' doc_no_end
       = (Inl (MarkersNotFound ''Recent commit markers not found in README.''), doc_no_end)
   \<and> indexOf PR_START_TAG (content doc_reversed) = Some 23
   \<and> indexOf PR_END_TAG (content doc_reversed) = Some 0
   \<and> updateReadme_prs ''new'' doc_reversed
       = (Inl (MarkersNotFound ''Recent PR markers not found in README.''), doc_reversed)"
proof -
  have a: "indexOf PR_END_TAG (content doc_no_end) = None"
    "indexOf COMMIT_END_TAG (content doc_no_end) = None"
    "indexOf PR_START_TAG (content doc_reversed) = Some 23"
    "indexOf PR_END_TAG (content doc_reversed) = Some 0"
    by code_simp+
  from markers_not_found[of doc_no_end "''new''"] markers_not_found[of doc_reversed "''new''"] a
  show ?thesis by simp
qed

subsection \<open>C7: the splice rewrites the interior only\<close>



subsection \<open>C8: events outside the lookback window\<close>



subsection \<open>C9: aggregation of two repositories\<close>


subsection \<open>C10: a failed commit lookup is not remembered\<close>

text \<open>
  C10. Take a push event without inline commits that is inside the window and carries a
  head reference which is neither in \<open>seen\<close> nor in the cache. If the lookup of that
  commit fails (a status that is not a success, or an exception) the event changes
  nothing but the count of lookups: no record, nothing added to \<open>seen\<close>, nothing stored
  in the cache. A later push event with the same head reference therefore sends a new
  lookup (the count of lookups goes up again), and when that one succeeds the event adds
  the SHA to \<open>seen\<close>, stores the details in the cache and appends a record for the SHA.
\<close>

theorem failed_lookup_is_retried:
  assumes ev: "head_only_push e ev repoName headSha"
    and ev': "head_only_push e ev' repoName headSha"
    and fresh: "headSha \<notin> set (seen st)"
      "map_of (commitCache st) (cacheKey repoName headSha) = None"
    and failed: "fetch_commit e (lookups st) repoName headSha = DetailNotOk status
                 \<or> fetch_commit e (lookups st) repoName headSha = DetailThrown msg"
    and ok: "fetch_commit e (Suc (lookups st)) repoName headSha = DetailOk data"
  shows "commit_event e ev st = Next (st\<lparr>lookups := Suc (lookups st)\<rparr>)
         \<and> lookups (flow_state (commit_event e ev' (st\<lparr>lookups := Suc (lookups st)\<rparr>)))
             = Suc (Suc (lookups st))
         \<and> seen (flow_state (commit_event e ev' (st\<lparr>lookups := Suc (lookups st)\<rparr>)))
             = seen st @ [headSha]
         \<and> map_of (commitCache (flow_state (commit_event e ev' (st\<lparr>lookups := Suc (lookups st)\<rparr>))))
               (cacheKey repoName headSha) \<noteq> None
         \<and> (\<exists>record.
               commits (flow_state (commit_event e ev' (st\<lparr>lookups := Suc (lookups st)\<rparr>)))
                 = commits st @ [record]
               \<and> c_oid record = take 7 headSha \<and> c_repoName record = repoName)"
proof -
  from ev have first: "commit_event e ev st = Next (st\<lparr>lookups := Suc (lookups st)\<rparr>)"
    using fresh failed
    by (auto simp: head_only_push_def commit_event_def head_commit_def fetchCommitDetails_def
        stale_def split: option.splits list.splits)
  from ev' have "lookups (flow_state (commit_event e ev' (st\<lparr>lookups := Suc (lookups st)\<rparr>)))
             = Suc (Suc (lookups st))
         \<and> seen (flow_state (commit_event e ev' (st\<lparr>lookups := Suc (lookups st)\<rparr>)))
             = seen st @ [headSha]
         \<and> map_of (commitCache (flow_state (commit_event e ev' (st\<lparr>lookups := Suc (lookups st)\<rparr>))))
               (cacheKey repoName headSha) \<noteq> None
         \<and> (\<exists>record.
               commits (flow_state (commit_event e ev' (st\<lparr>lookups := Suc (lookups st)\<rparr>)))
                 = commits st @ [record]
               \<and> c_oid record = take 7 headSha \<and> c_repoName record = repoName)"
    using fresh ok
    by (auto simp: head_only_push_def commit_event_def head_commit_def fetchCommitDetails_def
        stale_def set_add_def Let_def update_conv' split: option.splits list.splits)
  with first show ?thesis by blast
qed

text \<open>
  Two push events with the same head reference on a network whose first lookup answers
  500 and whose second succeeds: the first event leaves the state with one lookup
  counted, the second appends the record.
\<close>

theorem failed_lookup_is_retried_witness:
  "head_only_push (example_env 5 [] flaky_net) head_push ''octo/demo'' ''aaaaaaaaaaaaaaaa''
   \<and> head_only_push (example_env 5 [] flaky_net) head_push_again ''octo/demo'' ''aaaaaaaaaaaaaaaa''
   \<and> fetch_commit (example_env 5 [] flaky_net) (lookups empty_state) ''octo/demo''
        ''aaaaaaaaaaaaaaaa'' = DetailNotOk 500
   \<and> commit_event (example_env 5 [] flaky_net) head_push empty_state
       = Next (empty_state\<lparr>lookups := Suc (lookups empty_state)\<rparr>)
   \<and> seen (flow_state (commit_event (example_env 5 [] flaky_net) head_push_again
            (empty_state\<lparr>lookups := Suc (lookups empty_state)\<rparr>)))
       = seen empty_state @ [''aaaaaaaaaaaaaaaa'']
   \<and> (\<exists>record.
         commits (flow_state (commit_event (example_env 5 [] flaky_net) head_push_again
            (empty_state\<lparr>lookups := Suc (lookups empty_state)\<rparr>)))
           = commits empty_state @ [record]
         \<and> c_oid record = take 7 ''aaaaaaaaaaaaaaaa'' \<and> c_repoName record = ''octo/demo'')"
proof -
  have a: "head_only_push (example_env 5 [] flaky_net) head_push ''octo/demo'' ''aaaaaaaaaaaaaaaa''"
    "head_only_push (example_env 5 [] flaky_net) head_push_again ''octo/demo'' ''aaaaaaaaaaaaaaaa''"
    by (simp_all add: head_only_push_def head_push_def head_push_again_def push_ev_def stale_def
        sinceDate_def example_env_def)
  have b: "''aaaaaaaaaaaaaaaa'' \<notin> set (seen empty_state)"
    "map_of (commitCache empty_state) (cacheKey ''octo/demo'' ''aaaaaaaaaaaaaaaa'') = None"
    by (simp_all add: empty_state_def)
  have c: "fetch_commit (example_env 5 [] flaky_net) (lookups empty_state) ''octo/demo''
        ''aaaaaaaaaaaaaaaa'' = DetailNotOk 500"
    by (simp add: example_env_def flaky_net_def empty_state_def)
  have d: "fetch_commit (example_env 5 [] flaky_net) (Suc (lookups empty_state)) ''octo/demo''
        ''aaaaaaaaaaaaaaaa''
      = DetailOk \<lparr>cd_message = Some ''three'', cd_html_url = None, cd_author_date = None,
                     cd_committer_date = None\<rparr>"
    by (simp add: example_env_def flaky_net_def empty_state_def)
  from c have c': "fetch_commit (example_env 5 [] flaky_net) (lookups empty_state) ''octo/demo''
        ''aaaaaaaaaaaaaaaa'' = DetailNotOk 500
      \<or> fetch_commit (example_env 5 [] flaky_net) (lookups empty_state) ''octo/demo''
        ''aaaaaaaaaaaaaaaa'' = DetailThrown []"
    by blast
  show ?thesis
    using a c failed_lookup_is_retried[OF a b c' d] by blast
qed

end
